theory Spec2Isabelle
  imports Main
begin

section \<open>Common data: errors, decimal rendering, the clock\<close>

text \<open>
  Exceptions of the Python code are values: a function that can raise returns
  \<open>error + 'a\<close>, with \<open>Inl\<close> carrying the exception. The clock
  (\<open>time.time()\<close>, \<open>datetime.utcnow()\<close>) is read once per call and counted in
  whole seconds since the epoch.
\<close>

datatype error =
    ZeroDivisionError
  | DbError
  | ValueError string
  | UnicodeEncodeError
  | AuthenticationError string

definition digit_char :: "nat \<Rightarrow> char" where
  "digit_char d = ''0123456789'' ! (d mod 10)"

fun str_nat :: "nat \<Rightarrow> string" where
  "str_nat n = (if n < 10 then [digit_char n] else str_nat (n div 10) @ [digit_char (n mod 10)])"

declare str_nat.simps [simp del]

text \<open>Python's \<open>str\<close> on an integer.\<close>

definition str_int :: "int \<Rightarrow> string" where
  "str_int i = (if i < 0 then CHR ''-'' # str_nat (nat (- i)) else str_nat (nat i))"

section \<open>The rate limiter (rate\_limiting.py)\<close>

subsection \<open>The fast store and the durable store\<close>

text \<open>
  The Redis commands the limiter issues. An entry is a counter with an optional expiry
  time; an entry whose expiry has passed is absent for every command. \<open>INCR\<close> creates a
  missing counter at 1 and keeps the expiry of a live one; \<open>EXPIRE\<close> with a timeout that
  is not positive deletes the key.
\<close>

type_synonym redis_store = "string \<rightharpoonup> (int \<times> int option)"

definition redis_live :: "int \<Rightarrow> redis_store \<Rightarrow> string \<Rightarrow> int option" where
  "redis_live t r key =
     (case r key of
        None \<Rightarrow> None
      | Some (v, None) \<Rightarrow> Some v
      | Some (v, Some ex) \<Rightarrow> (if t < ex then Some v else None))"

definition redis_get :: "int \<Rightarrow> redis_store \<Rightarrow> string \<Rightarrow> int option" where
  "redis_get t r key = redis_live t r key"

definition redis_incr :: "int \<Rightarrow> string \<Rightarrow> redis_store \<Rightarrow> redis_store" where
  "redis_incr t key r =
     (case redis_live t r key of
        None \<Rightarrow> r(key \<mapsto> (1, None))
      | Some v \<Rightarrow> r(key \<mapsto> (v + 1, case r key of Some (_, ex) \<Rightarrow> ex | None \<Rightarrow> None)))"

definition redis_expire :: "int \<Rightarrow> string \<Rightarrow> int \<Rightarrow> redis_store \<Rightarrow> redis_store" where
  "redis_expire t key secs r =
     (case redis_live t r key of
        None \<Rightarrow> r
      | Some v \<Rightarrow> (if secs \<le> 0 then r(key := None) else r(key \<mapsto> (v, Some (t + secs)))))"

text \<open>A row of the table \<open>rate_limits\<close>: identifier, endpoint, created\_at.\<close>

type_synonym rl_row = "string \<times> string \<times> int"

record rl_state =
  redis :: redis_store
  rate_limits :: "rl_row list"

text \<open>
  What a call finds outside the program: the clock, whether Redis answers (a
  \<open>redis.RedisError\<close> is raised by the \<open>get\<close>, or by the pipeline's \<open>execute\<close>, which
  then applies none of its commands), and whether the database pool hands out a
  connection.
\<close>

datatype redis_fault = RedisUp | GetFails | ExecFails

record env =
  now :: int
  redis_fault :: redis_fault
  db_up :: bool

record rate_info =
  limit :: int
  remaining :: int
  reset_time :: int
  window_minutes :: int

subsection \<open>RateLimiter\<close>

definition get_rate_limit_key :: "int \<Rightarrow> string \<Rightarrow> string \<Rightarrow> int \<Rightarrow> error + string" where
  "get_rate_limit_key t identifier endpoint window =
     (if window * 60 = 0 then Inl ZeroDivisionError
      else Inr (''rate_limit:'' @ identifier @ '':'' @ endpoint @ '':'' @
                str_int (t div (window * 60))))"

definition check_rate_limit_db ::
  "env \<Rightarrow> rl_state \<Rightarrow> string \<Rightarrow> string \<Rightarrow> int \<Rightarrow> int \<Rightarrow> error + ((bool \<times> rate_info) \<times> rl_state)" where
  "check_rate_limit_db e st identifier endpoint lim window =
     (if \<not> db_up e then Inl DbError
      else
        let window_start = now e - window * 60;
            current_count = int (length (filter
               (\<lambda>(i, ep, created_at). i = identifier \<and> ep = endpoint \<and> created_at > window_start)
               (rate_limits st)))
        in if current_count \<ge> lim then
             Inr ((False, \<lparr>limit = lim, remaining = 0,
                           reset_time = now e + window * 60, window_minutes = window\<rparr>), st)
           else
             Inr ((True, \<lparr>limit = lim, remaining = lim - (current_count + 1),
                          reset_time = now e + window * 60, window_minutes = window\<rparr>),
                  st\<lparr>rate_limits := rate_limits st @ [(identifier, endpoint, now e)]\<rparr>))"

definition check_rate_limit ::
  "env \<Rightarrow> rl_state \<Rightarrow> string \<Rightarrow> string \<Rightarrow> int \<Rightarrow> int \<Rightarrow> error + ((bool \<times> rate_info) \<times> rl_state)" where
  "check_rate_limit e st identifier endpoint lim window =
     (case get_rate_limit_key (now e) identifier endpoint window of
        Inl err \<Rightarrow> Inl err
      | Inr key \<Rightarrow>
          if redis_fault e = GetFails then
            check_rate_limit_db e st identifier endpoint lim window
          else
            let current_count = (case redis_get (now e) (redis st) key of
                                   Some v \<Rightarrow> v | None \<Rightarrow> 0)
            in if current_count \<ge> lim then
                 Inr ((False, \<lparr>limit = lim, remaining = 0,
                               reset_time = now e + window * 60, window_minutes = window\<rparr>), st)
               else if redis_fault e = ExecFails then
                 check_rate_limit_db e st identifier endpoint lim window
               else
                 Inr ((True, \<lparr>limit = lim, remaining = lim - (current_count + 1),
                              reset_time = now e + window * 60, window_minutes = window\<rparr>),
                      st\<lparr>redis := redis_expire (now e) key (window * 60)
                                      (redis_incr (now e) key (redis st))\<rparr>))"

text \<open>Sequential calls for one (identifier, endpoint, limit, window), one environment per call.\<close>

fun check_all ::
  "env list \<Rightarrow> rl_state \<Rightarrow> string \<Rightarrow> string \<Rightarrow> int \<Rightarrow> int \<Rightarrow> error + ((bool \<times> rate_info) list \<times> rl_state)" where
  "check_all [] st identifier endpoint lim window = Inr ([], st)"
| "check_all (e # es) st identifier endpoint lim window =
     (case check_rate_limit e st identifier endpoint lim window of
        Inl err \<Rightarrow> Inl err
      | Inr (r, st') \<Rightarrow>
          (case check_all es st' identifier endpoint lim window of
             Inl err \<Rightarrow> Inl err
           | Inr (rs, st'') \<Rightarrow> Inr (r # rs, st'')))"

text \<open>The count the fast path reads for a key: a missing or expired counter reads as 0.\<close>

definition current_count :: "int \<Rightarrow> rl_state \<Rightarrow> string \<Rightarrow> int" where
  "current_count t st key = (case redis_get t (redis st) key of Some v \<Rightarrow> v | None \<Rightarrow> 0)"



subsection \<open>The policy table\<close>

definition RATE_LIMITS :: "(string \<times> (int \<times> int)) list" where
  "RATE_LIMITS =
     [(''default'', (100, 1)),
      (''auth_login'', (5, 5)),
      (''auth_register'', (3, 60)),
      (''quote_create'', (10, 1)),
      (''quote_list'', (50, 1)),
      (''file_upload'', (20, 5)),
      (''ai_detection'', (5, 1)),
      (''public_quote'', (20, 5))]"

text \<open>The pair is (limit, window): \<open>RATE_LIMITS.get(endpoint, RATE_LIMITS['default'])\<close>.\<close>

definition get_rate_limit_config :: "string \<Rightarrow> int \<times> int" where
  "get_rate_limit_config endpoint =
     (case map_of RATE_LIMITS endpoint of
        Some c \<Rightarrow> c
      | None \<Rightarrow> (100, 1))"

subsection \<open>The request and the decorator \<open>apply_rate_limit\<close>\<close>

text \<open>
  Of Flask's request the code reads the headers, the peer address and the attribute
  \<open>current_user\<close>, which \<open>require_auth\<close> sets to the token's payload; \<open>None\<close> is a
  request without the attribute. A payload is a dictionary of strings.
\<close>

record request =
  headers :: "string \<rightharpoonup> string"
  remote_addr :: "string option"
  current_user :: "(string \<rightharpoonup> string) option"

definition is_space :: "char \<Rightarrow> bool" where
  "is_space c = (c \<in> set [CHR 0x09, CHR 0x0A, CHR 0x0B, CHR 0x0C, CHR 0x0D,
                           CHR 0x1C, CHR 0x1D, CHR 0x1E, CHR 0x1F, CHR '' '',
                           CHR 0x85, CHR 0xA0])"

text \<open>\<open>s.strip()\<close> and \<open>s.split(',')[0]\<close>.\<close>

definition strip :: "string \<Rightarrow> string" where
  "strip s = rev (dropWhile is_space (rev (dropWhile is_space s)))"

definition first_field :: "string \<Rightarrow> string" where
  "first_field s = takeWhile (\<lambda>c. c \<noteq> CHR '','') s"

definition get_client_ip :: "request \<Rightarrow> string" where
  "get_client_ip req =
     (let forwarded_ip = headers req ''X-Forwarded-For'' in
      if forwarded_ip \<noteq> None \<and> forwarded_ip \<noteq> Some [] then strip (first_field (the forwarded_ip))
      else
        let real_ip = headers req ''X-Real-IP'' in
        if real_ip \<noteq> None \<and> real_ip \<noteq> Some [] then the real_ip
        else if remote_addr req \<noteq> None \<and> remote_addr req \<noteq> Some [] then the (remote_addr req)
        else ''127.0.0.1'')"

record response =
  status_code :: int
  body_error :: string
  body_message :: string
  body_rate_limit :: rate_info
  response_headers :: "(string \<times> string) list"

text \<open>
  What a decorated function does with a request: it answers itself (\<open>Rejected\<close>, with
  the response), or it calls the function it wraps (\<open>Invoked\<close>).
\<close>

datatype 'r outcome = Rejected 'r | Invoked

text \<open>
  The response both branches of the decorator build when a check refuses; they differ in
  the message only.
\<close>

definition rate_limit_exceeded :: "string \<Rightarrow> rate_info \<Rightarrow> int \<Rightarrow> response" where
  "rate_limit_exceeded message rate_info window =
     \<lparr>status_code = 429,
      body_error = ''Rate limit exceeded'',
      body_message = message,
      body_rate_limit = rate_info,
      response_headers =
        [(''X-RateLimit-Limit'', str_int (limit rate_info)),
         (''X-RateLimit-Remaining'', str_int (remaining rate_info)),
         (''X-RateLimit-Reset'', str_int (reset_time rate_info)),
         (''Retry-After'', str_int (window * 60))]\<rparr>"

text \<open>
  The tenant the decorator counts for: the payload's \<open>tenant_id\<close> when the request has
  a user and the value is not empty, else \<open>slug:\<close> and the raw header
  \<open>X-Tenant-Slug\<close> when that is not empty. \<open>None\<close> is a value the final
  \<open>if tenant_id:\<close> skips.
\<close>

definition tenant_id_of :: "request \<Rightarrow> string option" where
  "tenant_id_of req =
     (let tenant_id = (case current_user req of
                         Some u \<Rightarrow> u ''tenant_id''
                       | None \<Rightarrow> None)
      in if tenant_id \<noteq> None \<and> tenant_id \<noteq> Some [] then tenant_id
         else
           (case headers req ''X-Tenant-Slug'' of
              Some tenant_slug \<Rightarrow> (if tenant_slug \<noteq> [] then Some (''slug:'' @ tenant_slug) else None)
            | None \<Rightarrow> None))"

definition tenant_check ::
  "string \<Rightarrow> bool \<Rightarrow> int \<Rightarrow> int \<Rightarrow> env \<Rightarrow> rl_state \<Rightarrow> request \<Rightarrow> error + (response outcome \<times> rl_state)" where
  "tenant_check endpoint per_tenant lim window e st req =
     (if per_tenant then
        (case tenant_id_of req of
           None \<Rightarrow> Inr (Invoked, st)
         | Some tenant_id \<Rightarrow>
             (case check_rate_limit e st (''tenant:'' @ tenant_id) endpoint (lim * 10) window of
                Inl err \<Rightarrow> Inl err
              | Inr ((allowed, rate_info), st') \<Rightarrow>
                  if \<not> allowed then
                    Inr (Rejected (rate_limit_exceeded ''Too many requests from your organization''
                                     rate_info window), st')
                  else Inr (Invoked, st')))
      else Inr (Invoked, st))"

text \<open>
  The decorated function: \<open>Invoked\<close> is the call \<open>f(*args, **kwargs)\<close> of the
  protected handler. Both checks of one request read the same environment.
\<close>

definition apply_rate_limit ::
  "string \<Rightarrow> bool \<Rightarrow> bool \<Rightarrow> env \<Rightarrow> rl_state \<Rightarrow> request \<Rightarrow> error + (response outcome \<times> rl_state)" where
  "apply_rate_limit endpoint per_tenant per_ip e st req =
     (case get_rate_limit_config endpoint of
        (lim, window) \<Rightarrow>
          if per_ip then
            (let client_ip = get_client_ip req in
             case check_rate_limit e st (''ip:'' @ client_ip) endpoint lim window of
               Inl err \<Rightarrow> Inl err
             | Inr ((allowed, rate_info), st') \<Rightarrow>
                 if \<not> allowed then
                   Inr (Rejected (rate_limit_exceeded (''Too many requests from IP '' @ client_ip)
                                    rate_info window), st')
                 else tenant_check endpoint per_tenant lim window e st' req)
          else tenant_check endpoint per_tenant lim window e st req)"

section \<open>Authentication and authorization (auth.py)\<close>

subsection \<open>Python strings\<close>

text \<open>
  A \<open>str\<close> that comes from a JSON body or from the database is a list of code points;
  it may hold a lone surrogate (the JSON string \<open>"\ud800"\<close>). \<open>s.encode('utf-8')\<close>
  raises \<open>UnicodeEncodeError\<close> on a surrogate and gives the UTF-8 bytes otherwise. A
  header value is a string of one-byte characters, and \<open>text_of\<close> gives its code
  points.
\<close>

type_synonym pystr = "nat list"

definition text_of :: "string \<Rightarrow> pystr" where
  "text_of s = map of_char s"

definition is_surrogate :: "nat \<Rightarrow> bool" where
  "is_surrogate c = (0xD800 \<le> c \<and> c \<le> 0xDFFF)"

definition utf8_bytes :: "nat \<Rightarrow> string" where
  "utf8_bytes c =
     (if c < 0x80 then [char_of c]
      else if c < 0x800 then [char_of (0xC0 + c div 64), char_of (0x80 + c mod 64)]
      else if c < 0x10000 then
        [char_of (0xE0 + c div 4096), char_of (0x80 + c div 64 mod 64), char_of (0x80 + c mod 64)]
      else
        [char_of (0xF0 + c div 262144), char_of (0x80 + c div 4096 mod 64),
         char_of (0x80 + c div 64 mod 64), char_of (0x80 + c mod 64)])"

definition utf8_encode :: "pystr \<Rightarrow> error + string" where
  "utf8_encode s =
     (if list_ex is_surrogate s then Inl UnicodeEncodeError
      else Inr (concat (map utf8_bytes s)))"

subsection \<open>Email format\<close>

definition is_alpha :: "nat \<Rightarrow> bool" where
  "is_alpha c = (of_char CHR ''a'' \<le> c \<and> c \<le> of_char CHR ''z'' \<or>
                 of_char CHR ''A'' \<le> c \<and> c \<le> of_char CHR ''Z'')"

definition is_digit :: "nat \<Rightarrow> bool" where
  "is_digit c = (of_char CHR ''0'' \<le> c \<and> c \<le> of_char CHR ''9'')"

text \<open>The classes \<open>[a-zA-Z0-9._%+-]\<close> and \<open>[a-zA-Z0-9.-]\<close> of the pattern.\<close>

definition local_char :: "nat \<Rightarrow> bool" where
  "local_char c = (is_alpha c \<or> is_digit c \<or> c \<in> set (text_of ''._%+-''))"

definition domain_char :: "nat \<Rightarrow> bool" where
  "domain_char c = (is_alpha c \<or> is_digit c \<or> c \<in> set (text_of ''.-''))"

text \<open>
  \<open>re.match(r'^[a-zA-Z0-9._%+-]+@[a-zA-Z0-9.-]+\.[a-zA-Z]{2,}$', email)\<close>. Neither class
  has \<open>@\<close>, so the local part ends at the first \<open>@\<close>; the last group has no dot, so
  it starts after the last dot; \<open>$\<close> also matches before one final newline.
\<close>

definition validate_email :: "pystr \<Rightarrow> bool" where
  "validate_email email =
     (let s = (if email \<noteq> [] \<and> last email = 0x0A then butlast email else email);
          local_part = takeWhile (\<lambda>c. c \<noteq> of_char CHR ''@'') s;
          rest = dropWhile (\<lambda>c. c \<noteq> of_char CHR ''@'') s;
          domain = tl rest;
          tld = rev (takeWhile (\<lambda>c. c \<noteq> of_char CHR ''.'') (rev domain));
          host = take (length domain - length tld - 1) domain
      in local_part \<noteq> [] \<and> list_all local_char local_part \<and> rest \<noteq> [] \<and>
         length tld < length domain \<and>
         host \<noteq> [] \<and> list_all domain_char host \<and>
         2 \<le> length tld \<and> list_all is_alpha tld)"

subsection \<open>Passwords\<close>

text \<open>
  \<open>bcrypt.checkpw\<close> is a parameter of \<open>verify_password\<close>: a function of the two byte
  strings that returns a boolean or raises. \<open>verify_password\<close> encodes the password,
  then the hash, and returns what the library returns; it has no \<open>try\<close>.
\<close>

type_synonym checkpw = "string \<Rightarrow> string \<Rightarrow> error + bool"

definition verify_password :: "checkpw \<Rightarrow> pystr \<Rightarrow> pystr \<Rightarrow> error + bool" where
  "verify_password checkpw password hashed =
     (case utf8_encode password of
        Inl err \<Rightarrow> Inl err
      | Inr password_bytes \<Rightarrow>
          (case utf8_encode hashed of
             Inl err \<Rightarrow> Inl err
           | Inr hashed_bytes \<Rightarrow> checkpw password_bytes hashed_bytes))"

text \<open>
  The library as it is used in the instances below: \<open>bcrypt.checkpw(password, hashed)\<close>
  hashes the password with the version, cost and salt it reads from the front of
  \<open>hashed\<close>, \<open>$<version>$<cost>$<22 salt characters>\<close>, and compares the result with
  \<open>hashed\<close>; a string it cannot read so raises \<open>ValueError('Invalid salt')\<close>. The key
  derivation is the parameter \<open>kdf\<close>: it maps version, cost, salt and password to the
  hash string.
\<close>

fun split_on :: "char \<Rightarrow> string \<Rightarrow> string list" where
  "split_on c [] = [[]]"
| "split_on c (x # xs) =
     (if x = c then [] # split_on c xs
      else (case split_on c xs of
              y # ys \<Rightarrow> (x # y) # ys
            | [] \<Rightarrow> [[x]]))"

definition digit_val :: "char \<Rightarrow> nat" where
  "digit_val c = of_char c - 48"

definition parse_nat :: "string \<Rightarrow> nat" where
  "parse_nat s = foldl (\<lambda>n c. 10 * n + digit_val c) 0 s"

definition bcrypt_char :: "char \<Rightarrow> bool" where
  "bcrypt_char c = (is_alpha (of_char c) \<or> is_digit (of_char c) \<or> c \<in> set ''./'')"

definition parse_salt :: "string \<Rightarrow> (string \<times> nat \<times> string) option" where
  "parse_salt hashed =
     (case split_on CHR ''$'' hashed of
        [before, version, cost, remainder] \<Rightarrow>
          if before = [] \<and> version \<in> set [''2a'', ''2b'', ''2x'', ''2y''] \<and>
             cost \<noteq> [] \<and> list_all (\<lambda>c. is_digit (of_char c)) cost \<and>
             4 \<le> parse_nat cost \<and> parse_nat cost \<le> 31 \<and>
             22 \<le> length remainder \<and> list_all bcrypt_char (take 22 remainder)
          then Some (version, parse_nat cost, take 22 remainder)
          else None
      | _ \<Rightarrow> None)"

type_synonym kdf = "string \<Rightarrow> nat \<Rightarrow> string \<Rightarrow> string \<Rightarrow> string"

definition bcrypt_checkpw :: "kdf \<Rightarrow> checkpw" where
  "bcrypt_checkpw kdf password hashed =
     (case parse_salt hashed of
        None \<Rightarrow> Inl (ValueError ''Invalid salt'')
      | Some (version, cost, salt) \<Rightarrow> Inr (kdf version cost salt password = hashed))"

subsection \<open>Tokens: the jwt library\<close>

text \<open>
  A token is a payload with a signature; any other string is \<open>NotAToken\<close>. The HS256
  signature is a constructor of its key and message. \<open>jwt.decode\<close> checks the signature,
  then the claims \<open>iat\<close> and \<open>exp\<close> against the clock; its exceptions other than
  \<open>ExpiredSignatureError\<close> are all \<open>InvalidTokenError\<close>s.
\<close>

record jwt_payload =
  user_id :: string
  tenant_id :: string
  role :: string
  exp :: int
  iat :: int

datatype signature = HS256 string jwt_payload

datatype token = Token jwt_payload signature | NotAToken string

datatype jwt_error = ExpiredSignatureError | InvalidTokenError

definition jwt_encode :: "jwt_payload \<Rightarrow> string \<Rightarrow> token" where
  "jwt_encode payload key = Token payload (HS256 key payload)"

definition jwt_decode :: "int \<Rightarrow> token \<Rightarrow> string \<Rightarrow> jwt_error + jwt_payload" where
  "jwt_decode t tok key =
     (case tok of
        NotAToken s \<Rightarrow> Inl InvalidTokenError
      | Token payload sig \<Rightarrow>
          if sig \<noteq> HS256 key payload then Inl InvalidTokenError
          else if iat payload > t then Inl InvalidTokenError
          else if exp payload \<le> t then Inl ExpiredSignatureError
          else Inr payload)"

text \<open>\<open>os.getenv\<close> reads the process environment, a dictionary of strings.\<close>

type_synonym environ = "string \<rightharpoonup> string"

definition generate_jwt_token :: "environ \<Rightarrow> int \<Rightarrow> string \<Rightarrow> string \<Rightarrow> string \<Rightarrow> error + token" where
  "generate_jwt_token environ t uid tid r =
     (let payload = \<lparr>user_id = uid, tenant_id = tid, role = r,
                     exp = t + 24 * 3600, iat = t\<rparr>;
          secret_key = environ ''JWT_SECRET_KEY''
      in if secret_key = None \<or> secret_key = Some [] then
           Inl (ValueError ''JWT_SECRET_KEY environment variable not set'')
         else Inr (jwt_encode payload (the secret_key)))"

definition decode_jwt_token :: "environ \<Rightarrow> int \<Rightarrow> token \<Rightarrow> error + jwt_payload" where
  "decode_jwt_token environ t tok =
     (let secret_key = environ ''JWT_SECRET_KEY''
      in if secret_key = None \<or> secret_key = Some [] then
           Inl (ValueError ''JWT_SECRET_KEY environment variable not set'')
         else
           (case jwt_decode t tok (the secret_key) of
              Inr payload \<Rightarrow> Inr payload
            | Inl ExpiredSignatureError \<Rightarrow> Inl (AuthenticationError ''Token has expired'')
            | Inl InvalidTokenError \<Rightarrow> Inl (AuthenticationError ''Invalid token'')))"

subsection \<open>Startup (app\_secure.py)\<close>

text \<open>
  The block under \<open>if __name__ == '__main__'\<close>: it runs when the file is the program,
  not when a server imports the module.
\<close>

datatype launch = AsMain | Imported

datatype startup = Exited int | Serving

definition main_guard :: "launch \<Rightarrow> environ \<Rightarrow> startup" where
  "main_guard how environ =
     (if how = AsMain then
        (let missing_vars = filter (\<lambda>var. environ var = None \<or> environ var = Some [])
                              [''JWT_SECRET_KEY'', ''DB_PASSWORD'']
         in if missing_vars \<noteq> [] then Exited 1 else Serving)
      else Serving)"

subsection \<open>The credential store and \<open>authenticate_user\<close>\<close>

text \<open>
  The tables \<open>tenants\<close> and \<open>users\<close>, with the columns the code reads and writes.
  Identifiers are the strings \<open>str(row["id"])\<close> gives. \<open>fetchone\<close> is the first row the
  query finds.

  \<open>with DatabaseManager() as cursor\<close> fails with the driver's error when the store is
  unreachable (\<open>db_up\<close> of the environment is false). \<open>cursor.execute\<close> encodes a
  string parameter before it sends the query: a lone surrogate raises
  \<open>UnicodeEncodeError\<close>, a NUL character \<open>ValueError\<close>. An exception inside the block
  rolls the transaction back.
\<close>

record tenant_row =
  t_id :: string
  t_slug :: pystr
  t_is_active :: bool

record user_row =
  u_id :: string
  u_tenant_id :: string
  u_email :: pystr
  u_password_hash :: pystr
  u_role :: string
  u_is_active :: bool
  u_last_login :: "int option"

record db =
  tenants :: "tenant_row list"
  users :: "user_row list"

record user_info =
  ui_user_id :: string
  ui_tenant_id :: string
  ui_email :: pystr
  ui_role :: string

definition adapt_param :: "pystr \<Rightarrow> error + pystr" where
  "adapt_param s =
     (if list_ex is_surrogate s then Inl UnicodeEncodeError
      else if 0 \<in> set s then
        Inl (ValueError ''A string literal cannot contain NUL (0x00) characters.'')
      else Inr s)"

text \<open>\<open>SELECT id FROM tenants WHERE slug = %s AND is_active = true\<close>, then \<open>fetchone\<close>.\<close>

definition find_tenant :: "db \<Rightarrow> pystr \<Rightarrow> error + tenant_row option" where
  "find_tenant d tenant_slug =
     (case adapt_param tenant_slug of
        Inl err \<Rightarrow> Inl err
      | Inr s \<Rightarrow> Inr (find (\<lambda>t. t_slug t = s \<and> t_is_active t) (tenants d)))"

text \<open>\<open>SELECT ... FROM users WHERE email = %s AND tenant_id = %s\<close>, then \<open>fetchone\<close>.\<close>

definition find_user :: "db \<Rightarrow> pystr \<Rightarrow> string \<Rightarrow> error + user_row option" where
  "find_user d email tid =
     (case adapt_param email of
        Inl err \<Rightarrow> Inl err
      | Inr s \<Rightarrow> Inr (find (\<lambda>u. u_email u = s \<and> u_tenant_id u = tid) (users d)))"

definition authenticate_user ::
  "checkpw \<Rightarrow> env \<Rightarrow> db \<Rightarrow> pystr \<Rightarrow> pystr \<Rightarrow> pystr \<Rightarrow> error + (user_info \<times> db)" where
  "authenticate_user checkpw e d email password tenant_slug =
     (if \<not> validate_email email then Inl (AuthenticationError ''Invalid email format'')
      else if email = [] \<or> password = [] \<or> tenant_slug = [] then
        Inl (AuthenticationError ''Email, password, and tenant are required'')
      else if \<not> db_up e then Inl DbError
      else
        (case find_tenant d tenant_slug of
           Inl err \<Rightarrow> Inl err
         | Inr None \<Rightarrow> Inl (AuthenticationError ''Invalid tenant'')
         | Inr (Some tenant) \<Rightarrow>
             (case find_user d email (t_id tenant) of
                Inl err \<Rightarrow> Inl err
              | Inr None \<Rightarrow> Inl (AuthenticationError ''Invalid credentials'')
              | Inr (Some user) \<Rightarrow>
                  if \<not> u_is_active user then Inl (AuthenticationError ''Account is disabled'')
                  else
                    (case verify_password checkpw password (u_password_hash user) of
                       Inl err \<Rightarrow> Inl err
                     | Inr ok \<Rightarrow>
                         if \<not> ok then Inl (AuthenticationError ''Invalid credentials'')
                         else
                           Inr (\<lparr>ui_user_id = u_id user, ui_tenant_id = t_id tenant,
                                 ui_email = u_email user, ui_role = u_role user\<rparr>,
                                d\<lparr>users := map (\<lambda>u. if u_id u = u_id user
                                                      then u\<lparr>u_last_login := Some (now e)\<rparr> else u)
                                                (users d)\<rparr>)))))"

subsection \<open>Error responses\<close>

record error_response =
  http_status :: int
  error_text :: string
  message_text :: "string option"

text \<open>The handler Flask runs for an \<open>AuthenticationError\<close>, given \<open>str(e)\<close>.\<close>

definition handle_auth_error :: "string \<Rightarrow> error_response" where
  "handle_auth_error message =
     \<lparr>http_status = 401, error_text = ''Authentication failed'', message_text = Some message\<rparr>"

text \<open>
  What the route \<open>login\<close> answers when \<open>authenticate_user\<close> raises: an
  \<open>AuthenticationError\<close> is raised again, every other exception becomes
  \<open>AuthenticationError("Login failed")\<close>.
\<close>

definition login_error_response :: "error \<Rightarrow> error_response" where
  "login_error_response err =
     (case err of
        AuthenticationError message \<Rightarrow> handle_auth_error message
      | _ \<Rightarrow> handle_auth_error ''Login failed'')"

subsection \<open>\<open>require_role\<close> and \<open>get_tenant_from_request\<close>\<close>

definition require_role :: "string \<Rightarrow> request \<Rightarrow> error_response outcome" where
  "require_role required_role req =
     (case current_user req of
        None \<Rightarrow> Rejected \<lparr>http_status = 401, error_text = ''Authentication required'',
                            message_text = None\<rparr>
      | Some u \<Rightarrow>
          (let user_role = u ''role''
           in if user_role \<noteq> Some required_role \<and> user_role \<noteq> Some ''admin'' then
                Rejected \<lparr>http_status = 403, error_text = ''Insufficient privileges'',
                          message_text = None\<rparr>
              else Invoked))"

text \<open>
  The function has no \<open>raise\<close> of its own: it returns the tenant id or \<open>None\<close>, and an
  exception of the store passes through it.
\<close>

definition get_tenant_from_request :: "env \<Rightarrow> db \<Rightarrow> request \<Rightarrow> error + string option" where
  "get_tenant_from_request e d req =
     (case current_user req of
        Some u \<Rightarrow> Inr (u ''tenant_id'')
      | None \<Rightarrow>
          (case headers req ''X-Tenant-Slug'' of
             Some tenant_slug \<Rightarrow>
               if tenant_slug \<noteq> [] then
                 (if \<not> db_up e then Inl DbError
                  else
                    (case find_tenant d (text_of tenant_slug) of
                       Inl err \<Rightarrow> Inl err
                     | Inr (Some tenant) \<Rightarrow> Inr (Some (t_id tenant))
                     | Inr None \<Rightarrow> Inr None))
               else Inr None
           | None \<Rightarrow> Inr None))"

section \<open>Concrete inputs\<close>

text \<open>Inputs at which the theorems below are instantiated.\<close>

definition fresh_state :: rl_state where
  "fresh_state = \<lparr>redis = Map.empty, rate_limits = []\<rparr>"

definition env_at :: "int \<Rightarrow> env" where
  "env_at t = \<lparr>now = t, redis_fault = RedisUp, db_up = True\<rparr>"


text \<open>A request from 10.0.0.1 with no user and no tenant header.\<close>

definition anonymous_request :: request where
  "anonymous_request = \<lparr>headers = Map.empty, remote_addr = Some ''10.0.0.1'', current_user = None\<rparr>"

text \<open>The same caller naming the tenant \<open>acme\<close> in the header \<open>X-Tenant-Slug\<close>.\<close>

definition slug_request :: request where
  "slug_request = \<lparr>headers = [''X-Tenant-Slug'' \<mapsto> ''acme''], remote_addr = Some ''10.0.0.1'',
                    current_user = None\<rparr>"

text \<open>The caller after login: the token's payload names tenant \<open>42\<close>.\<close>

definition user_request :: request where
  "user_request = \<lparr>headers = [''X-Tenant-Slug'' \<mapsto> ''acme''], remote_addr = Some ''10.0.0.1'',
                    current_user = Some [''user_id'' \<mapsto> ''7'', ''tenant_id'' \<mapsto> ''42'',
                                         ''role'' \<mapsto> ''staff'']\<rparr>"

text \<open>Process environments with and without the signing secret.\<close>

definition env_with_secret :: environ where
  "env_with_secret = [''JWT_SECRET_KEY'' \<mapsto> ''s3cret'', ''DB_PASSWORD'' \<mapsto> ''pw'']"

definition env_without_secret :: environ where
  "env_without_secret = [''DB_PASSWORD'' \<mapsto> ''pw'']"

text \<open>
  A stand-in for the key derivation, for the closed instances only: it writes the
  password after the salt.
\<close>

definition toy_kdf :: kdf where
  "toy_kdf version cost salt password = ''$'' @ version @ ''$12$'' @ salt @ password"

text \<open>The store unreachable.\<close>

definition db_down_at :: "int \<Rightarrow> env" where
  "db_down_at t = \<lparr>now = t, redis_fault = RedisUp, db_up = False\<rparr>"

text \<open>
  A store with the active tenant \<open>acme\<close>, its active user alice, whose password is
  \<open>hunter2\<close> under \<open>toy_kdf\<close>, and its disabled user bob.
\<close>

definition sample_db :: db where
  "sample_db =
     \<lparr>tenants = [\<lparr>t_id = ''1'', t_slug = text_of ''acme'', t_is_active = True\<rparr>,
                 \<lparr>t_id = ''2'', t_slug = text_of ''closed'', t_is_active = False\<rparr>],
      users = [\<lparr>u_id = ''7'', u_tenant_id = ''1'', u_email = text_of ''alice@acme.com'',
                 u_password_hash = text_of ''$2b$12$abcdefghijklmnopqrstuvhunter2'',
                 u_role = ''admin'', u_is_active = True, u_last_login = None\<rparr>,
               \<lparr>u_id = ''8'', u_tenant_id = ''1'', u_email = text_of ''bob@acme.com'',
                 u_password_hash = text_of ''$2b$12$abcdefghijklmnopqrstuvhunter2'',
                 u_role = ''staff'', u_is_active = False, u_last_login = None\<rparr>]\<rparr>"

text \<open>Requests without a user that name a tenant in the header.\<close>

definition request_for :: "string \<Rightarrow> request" where
  "request_for tenant_slug =
     \<lparr>headers = [''X-Tenant-Slug'' \<mapsto> tenant_slug], remote_addr = Some ''10.0.0.1'',
      current_user = None\<rparr>"

text \<open>A request whose token names the role \<open>admin\<close>.\<close>

definition admin_request :: request where
  "admin_request = \<lparr>headers = Map.empty, remote_addr = Some ''10.0.0.1'',
                     current_user = Some [''user_id'' \<mapsto> ''1'', ''tenant_id'' \<mapsto> ''42'',
                                          ''role'' \<mapsto> ''admin'']\<rparr>"

section \<open>Properties of the rate limiter\<close>

subsection \<open>Buckets and the fast path\<close>

lemma same_bucket_lt:
  fixes t t' m :: int
  assumes "0 < m" "t div m = t' div m"
  shows "t' < t + m"
proof -
  define q where "q = t div m * m"
  have a: "t - q = t mod m" unfolding q_def by (simp add: minus_div_mult_eq_mod)
  have b: "t' - q = t' mod m" unfolding q_def assms(2) by (simp add: minus_div_mult_eq_mod)
  have "t' mod m < m" "0 \<le> t mod m" using assms(1) by simp_all
  with a b show ?thesis by linarith
qed

lemma incr_expire:
  assumes "0 < secs"
  shows "redis_expire t key secs (redis_incr t key r) =
         r(key \<mapsto> ((case redis_get t r key of Some v \<Rightarrow> v | None \<Rightarrow> 0) + 1, Some (t + secs)))"
  using assms
  by (auto simp: redis_expire_def redis_incr_def redis_get_def redis_live_def split: option.splits prod.splits)

lemma fast_allowed:
  assumes "0 < w" "redis_fault e = RedisUp"
    "get_rate_limit_key (now e) i ep w = Inr key"
    "current_count (now e) st key < lim"
  shows "check_rate_limit e st i ep lim w =
     Inr ((True, \<lparr>limit = lim, remaining = lim - (current_count (now e) st key + 1),
                  reset_time = now e + w * 60, window_minutes = w\<rparr>),
          st\<lparr>redis := (redis st)(key \<mapsto> (current_count (now e) st key + 1, Some (now e + w * 60)))\<rparr>)"
  using assms by (simp add: check_rate_limit_def current_count_def incr_expire Let_def)

lemma fast_denied:
  assumes "redis_fault e = RedisUp"
    "get_rate_limit_key (now e) i ep w = Inr key"
    "lim \<le> current_count (now e) st key"
  shows "check_rate_limit e st i ep lim w =
     Inr ((False, \<lparr>limit = lim, remaining = 0,
                  reset_time = now e + w * 60, window_minutes = w\<rparr>), st)"
  using assms by (simp add: check_rate_limit_def current_count_def Let_def)


lemma count_after_allowed:
  assumes "0 < w" "t div (w * 60) = t' div (w * 60)"
  shows "current_count t' (st\<lparr>redis := (redis st)(key \<mapsto> (c, Some (t + w * 60)))\<rparr>) key = c"
proof -
  have "t' < t + w * 60" using same_bucket_lt [of "w * 60" t t'] assms by simp
  then show ?thesis by (simp add: current_count_def redis_get_def redis_live_def)
qed

lemma key_same_bucket:
  assumes "t div (w * 60) = t' div (w * 60)"
  shows "get_rate_limit_key t' i ep w = get_rate_limit_key t i ep w"
  using assms by (simp add: get_rate_limit_key_def)

subsection \<open>The boundary of a limit of five requests per minute\<close>

text \<open>
  Claim C1. With \<open>limit = 5\<close> and \<open>window = 1\<close> minute, six calls of
  \<open>check_rate_limit\<close> for one (identifier, endpoint) pair whose counter is absent from
  the fast store, all made in one bucket of the clock while Redis answers: the first
  five are allowed with \<open>remaining\<close> 4, 3, 2, 1, 0 in that order; the sixth is refused
  with \<open>remaining = 0\<close>, and it leaves the store as the fifth call left it, the counter
  still reading 5.
\<close>

theorem check_rate_limit_boundary:
  assumes up: "\<forall>e \<in> set [e1, e2, e3, e4, e5, e6]. redis_fault e = RedisUp \<and> now e div 60 = b"
    and key: "get_rate_limit_key (now e1) i ep 1 = Inr key"
    and fresh: "redis st key = None"
  shows "\<exists>st5.
      check_all [e1, e2, e3, e4, e5] st i ep 5 1 =
        Inr ([(True, \<lparr>limit = 5, remaining = 4, reset_time = now e1 + 60, window_minutes = 1\<rparr>),
              (True, \<lparr>limit = 5, remaining = 3, reset_time = now e2 + 60, window_minutes = 1\<rparr>),
              (True, \<lparr>limit = 5, remaining = 2, reset_time = now e3 + 60, window_minutes = 1\<rparr>),
              (True, \<lparr>limit = 5, remaining = 1, reset_time = now e4 + 60, window_minutes = 1\<rparr>),
              (True, \<lparr>limit = 5, remaining = 0, reset_time = now e5 + 60, window_minutes = 1\<rparr>)], st5) \<and>
      redis_get (now e6) (redis st5) key = Some 5 \<and>
      check_rate_limit e6 st5 i ep 5 1 =
        Inr ((False, \<lparr>limit = 5, remaining = 0, reset_time = now e6 + 60, window_minutes = 1\<rparr>), st5)"
proof -
  have f: "redis_fault e1 = RedisUp" "redis_fault e2 = RedisUp" "redis_fault e3 = RedisUp"
    "redis_fault e4 = RedisUp" "redis_fault e5 = RedisUp" "redis_fault e6 = RedisUp"
    using up by simp_all
  have bk: "now e1 div (1 * 60) = b" "now e2 div (1 * 60) = b" "now e3 div (1 * 60) = b"
    "now e4 div (1 * 60) = b" "now e5 div (1 * 60) = b" "now e6 div (1 * 60) = b"
    using up by simp_all
  have k: "get_rate_limit_key (now e2) i ep 1 = Inr key" "get_rate_limit_key (now e3) i ep 1 = Inr key"
    "get_rate_limit_key (now e4) i ep 1 = Inr key" "get_rate_limit_key (now e5) i ep 1 = Inr key"
    "get_rate_limit_key (now e6) i ep 1 = Inr key"
    using key bk by (simp_all add: get_rate_limit_key_def)
  have c0: "current_count (now e1) st key = 0"
    using fresh by (simp add: current_count_def redis_get_def redis_live_def)
  define st1 where "st1 = st\<lparr>redis := (redis st)(key \<mapsto> (1, Some (now e1 + 1 * 60)))\<rparr>"
  have s1: "check_rate_limit e1 st i ep 5 1 = Inr ((True, \<lparr>limit = 5, remaining = 4, reset_time = now e1 + 60, window_minutes = 1\<rparr>), st1)"
    using fast_allowed [OF _ f(1) key, of st 5] c0 by (simp add: st1_def)
  have c1: "current_count (now e2) st1 key = 1"
    unfolding st1_def using count_after_allowed [of 1 "now e1" "now e2"] bk by simp
  define st2 where "st2 = st1\<lparr>redis := (redis st1)(key \<mapsto> (2, Some (now e2 + 1 * 60)))\<rparr>"
  have s2: "check_rate_limit e2 st1 i ep 5 1 = Inr ((True, \<lparr>limit = 5, remaining = 3, reset_time = now e2 + 60, window_minutes = 1\<rparr>), st2)"
    using fast_allowed [OF _ f(2) k(1), of st1 5] c1 by (simp add: st2_def)
  have c2: "current_count (now e3) st2 key = 2"
    unfolding st2_def using count_after_allowed [of 1 "now e2" "now e3"] bk by simp
  define st3 where "st3 = st2\<lparr>redis := (redis st2)(key \<mapsto> (3, Some (now e3 + 1 * 60)))\<rparr>"
  have s3: "check_rate_limit e3 st2 i ep 5 1 = Inr ((True, \<lparr>limit = 5, remaining = 2, reset_time = now e3 + 60, window_minutes = 1\<rparr>), st3)"
    using fast_allowed [OF _ f(3) k(2), of st2 5] c2 by (simp add: st3_def)
  have c3: "current_count (now e4) st3 key = 3"
    unfolding st3_def using count_after_allowed [of 1 "now e3" "now e4"] bk by simp
  define st4 where "st4 = st3\<lparr>redis := (redis st3)(key \<mapsto> (4, Some (now e4 + 1 * 60)))\<rparr>"
  have s4: "check_rate_limit e4 st3 i ep 5 1 = Inr ((True, \<lparr>limit = 5, remaining = 1, reset_time = now e4 + 60, window_minutes = 1\<rparr>), st4)"
    using fast_allowed [OF _ f(4) k(3), of st3 5] c3 by (simp add: st4_def)
  have c4: "current_count (now e5) st4 key = 4"
    unfolding st4_def using count_after_allowed [of 1 "now e4" "now e5"] bk by simp
  define st5 where "st5 = st4\<lparr>redis := (redis st4)(key \<mapsto> (5, Some (now e5 + 1 * 60)))\<rparr>"
  have s5: "check_rate_limit e5 st4 i ep 5 1 = Inr ((True, \<lparr>limit = 5, remaining = 0, reset_time = now e5 + 60, window_minutes = 1\<rparr>), st5)"
    using fast_allowed [OF _ f(5) k(4), of st4 5] c4 by (simp add: st5_def)
  have c5: "current_count (now e6) st5 key = 5"
    unfolding st5_def using count_after_allowed [of 1 "now e5" "now e6"] bk by simp
  have g5: "redis_get (now e6) (redis st5) key = Some 5"
    unfolding st5_def using same_bucket_lt [of 60 "now e5" "now e6"] bk
    by (simp add: redis_get_def redis_live_def)
  have s6: "check_rate_limit e6 st5 i ep 5 1 = Inr ((False, \<lparr>limit = 5, remaining = 0, reset_time = now e6 + 60, window_minutes = 1\<rparr>), st5)"
    using fast_denied [OF f(6) k(5), of 5 st5] c5 by simp
  have "check_all [e1, e2, e3, e4, e5] st i ep 5 1 =
        Inr ([(True, \<lparr>limit = 5, remaining = 4, reset_time = now e1 + 60, window_minutes = 1\<rparr>),
              (True, \<lparr>limit = 5, remaining = 3, reset_time = now e2 + 60, window_minutes = 1\<rparr>),
              (True, \<lparr>limit = 5, remaining = 2, reset_time = now e3 + 60, window_minutes = 1\<rparr>),
              (True, \<lparr>limit = 5, remaining = 1, reset_time = now e4 + 60, window_minutes = 1\<rparr>),
              (True, \<lparr>limit = 5, remaining = 0, reset_time = now e5 + 60, window_minutes = 1\<rparr>)], st5)"
    by (simp add: s1 s2 s3 s4 s5)
  with g5 s6 show ?thesis by blast
qed

theorem check_rate_limit_boundary_witness:
  "\<exists>st5.
      check_all [env_at 120, env_at 121, env_at 130, env_at 150, env_at 179] fresh_state
          ''ip:10.0.0.1'' ''ai_detection'' 5 1 =
        Inr ([(True, \<lparr>limit = 5, remaining = 4, reset_time = 180, window_minutes = 1\<rparr>),
              (True, \<lparr>limit = 5, remaining = 3, reset_time = 181, window_minutes = 1\<rparr>),
              (True, \<lparr>limit = 5, remaining = 2, reset_time = 190, window_minutes = 1\<rparr>),
              (True, \<lparr>limit = 5, remaining = 1, reset_time = 210, window_minutes = 1\<rparr>),
              (True, \<lparr>limit = 5, remaining = 0, reset_time = 239, window_minutes = 1\<rparr>)], st5) \<and>
      redis_get 179 (redis st5) ''rate_limit:ip:10.0.0.1:ai_detection:2'' = Some 5 \<and>
      check_rate_limit (env_at 179) st5 ''ip:10.0.0.1'' ''ai_detection'' 5 1 =
        Inr ((False, \<lparr>limit = 5, remaining = 0, reset_time = 239, window_minutes = 1\<rparr>), st5)"
proof -
  have up: "\<forall>e \<in> set [env_at 120, env_at 121, env_at 130, env_at 150, env_at 179, env_at 179].
      redis_fault e = RedisUp \<and> now e div 60 = 2"
    by (simp add: env_at_def)
  have key: "get_rate_limit_key (now (env_at 120)) ''ip:10.0.0.1'' ''ai_detection'' 1 =
      Inr ''rate_limit:ip:10.0.0.1:ai_detection:2''"
    by (simp add: get_rate_limit_key_def env_at_def str_int_def str_nat.simps digit_char_def)
  have fresh: "redis fresh_state ''rate_limit:ip:10.0.0.1:ai_detection:2'' = None"
    by (simp add: fresh_state_def)
  show ?thesis
    using check_rate_limit_boundary [OF up key fresh] by (simp add: env_at_def)
qed

subsection \<open>The fallback path against the fast path\<close>









section \<open>Properties of the decorator \<open>apply_rate_limit\<close>\<close>

lemma check_rate_limit_db_info:
  assumes "check_rate_limit_db e st i ep lim w = Inr ((a, info), st')"
  shows "limit info = lim \<and> (\<not> a \<longrightarrow> remaining info = 0)"
  using assms by (auto simp: check_rate_limit_db_def Let_def split: if_splits)

lemma check_rate_limit_info:
  assumes "check_rate_limit e st i ep lim w = Inr ((a, info), st')"
  shows "limit info = lim \<and> (\<not> a \<longrightarrow> remaining info = 0)"
proof (cases "get_rate_limit_key (now e) i ep w")
  case (Inl err)
  then show ?thesis using assms by (simp add: check_rate_limit_def)
next
  case (Inr key)
  show ?thesis
  proof (cases "check_rate_limit e st i ep lim w = check_rate_limit_db e st i ep lim w")
    case True
    then show ?thesis using assms check_rate_limit_db_info [of e st i ep lim w a info st'] by simp
  next
    case False
    then show ?thesis using assms Inr
      by (auto simp: check_rate_limit_def Let_def split: if_splits)
  qed
qed

lemma str_int_zero: "str_int 0 = ''0''"
  by (simp add: str_int_def str_nat.simps digit_char_def)

text \<open>
  Claim C2, as the code has it. On an endpoint limited on both axes, with configured
  limit \<open>L\<close> and a decorated call that returns: the IP-scoped check against \<open>L\<close> was
  made; the handler is invoked only if that check allowed and, when the request
  determines a tenant (a user's \<open>tenant_id\<close> or the header \<open>X-Tenant-Slug\<close>), the
  tenant-scoped check against \<open>L * 10\<close> allowed as well; a request that determines no
  tenant gets no tenant-scoped check. A rejection has status 429 and carries the limit,
  the remaining count 0 and the reset time of the check that refused, in the body and
  in the headers.
\<close>

theorem dual_axis_limiting:
  assumes cfg: "get_rate_limit_config ep = (L, w)"
    and run: "apply_rate_limit ep True True e st req = Inr (out, st')"
  shows "\<exists>a1 i1 st1.
     check_rate_limit e st (''ip:'' @ get_client_ip req) ep L w = Inr ((a1, i1), st1) \<and>
     (out = Invoked \<longrightarrow>
        a1 \<and> (\<forall>tid. tenant_id_of req = Some tid \<longrightarrow>
               (\<exists>i2. check_rate_limit e st1 (''tenant:'' @ tid) ep (L * 10) w = Inr ((True, i2), st')))) \<and>
     (\<forall>r. out = Rejected r \<longrightarrow>
        status_code r = 429 \<and>
        (\<exists>info.
           ((\<not> a1 \<and> info = i1 \<and> limit info = L) \<or>
            (a1 \<and> limit info = L * 10 \<and>
             (\<exists>tid. tenant_id_of req = Some tid \<and>
                check_rate_limit e st1 (''tenant:'' @ tid) ep (L * 10) w = Inr ((False, info), st')))) \<and>
           remaining info = 0 \<and>
           body_rate_limit r = info \<and>
           map_of (response_headers r) ''X-RateLimit-Limit'' = Some (str_int (limit info)) \<and>
           map_of (response_headers r) ''X-RateLimit-Remaining'' = Some ''0'' \<and>
           map_of (response_headers r) ''X-RateLimit-Reset'' = Some (str_int (reset_time info))))"
proof (cases "check_rate_limit e st (''ip:'' @ get_client_ip req) ep L w")
  case (Inl err)
  then show ?thesis using run cfg by (simp add: apply_rate_limit_def Let_def)
next
  case (Inr res)
  then obtain a1 i1 st1 where ip: "check_rate_limit e st (''ip:'' @ get_client_ip req) ep L w = Inr ((a1, i1), st1)"
    by (cases res) auto
  note ipi = check_rate_limit_info [OF ip]
  show ?thesis
  proof (cases a1)
    case False
    then have "out = Rejected (rate_limit_exceeded (''Too many requests from IP '' @ get_client_ip req) i1 w)"
      using run cfg ip by (simp add: apply_rate_limit_def Let_def)
    then show ?thesis using ip ipi False
      by (intro exI [of _ a1] exI [of _ i1] exI [of _ st1]) (simp add: rate_limit_exceeded_def str_int_zero)
  next
    case True
    then have tc: "tenant_check ep True L w e st1 req = Inr (out, st')"
      using run cfg ip by (simp add: apply_rate_limit_def Let_def)
    show ?thesis
    proof (cases "tenant_id_of req")
      case None
      then have "out = Invoked" using tc by (simp add: tenant_check_def)
      then show ?thesis using ip True None
        by (intro exI [of _ a1] exI [of _ i1] exI [of _ st1]) simp
    next
      case (Some tid)
      show ?thesis
      proof (cases "check_rate_limit e st1 (''tenant:'' @ tid) ep (L * 10) w")
        case (Inl err)
        then show ?thesis using tc Some by (simp add: tenant_check_def)
      next
        case (Inr res2)
        then obtain a2 i2 st2 where t2: "check_rate_limit e st1 (''tenant:'' @ tid) ep (L * 10) w = Inr ((a2, i2), st2)"
          by (cases res2) auto
        note ti = check_rate_limit_info [OF t2]
        show ?thesis
        proof (cases a2)
          case True
          then have "out = Invoked" "st' = st2" using tc Some t2 by (simp_all add: tenant_check_def)
          then show ?thesis using ip \<open>a1\<close> Some t2 True
            by (intro exI [of _ a1] exI [of _ i1] exI [of _ st1]) simp
        next
          case False
          then have "out = Rejected (rate_limit_exceeded ''Too many requests from your organization'' i2 w)" "st' = st2"
            using tc Some t2 by (simp_all add: tenant_check_def)
          then show ?thesis using ip \<open>a1\<close> Some t2 False ti
            by (intro exI [of _ a1] exI [of _ i1] exI [of _ st1])
               (simp add: rate_limit_exceeded_def str_int_zero)
        qed
      qed
    qed
  qed
qed

theorem dual_axis_limiting_witness:
  "get_rate_limit_config ''default'' = (100, 1) \<and>
   apply_rate_limit ''default'' True True (env_at 120) fresh_state slug_request =
     Inr (Invoked, fresh_state\<lparr>redis :=
            Map.empty(''rate_limit:ip:10.0.0.1:default:2'' \<mapsto> (1, Some 180),
                      ''rate_limit:tenant:slug:acme:default:2'' \<mapsto> (1, Some 180))\<rparr>) \<and>
   (\<exists>a1 i1 st1.
     check_rate_limit (env_at 120) fresh_state (''ip:'' @ get_client_ip slug_request) ''default'' 100 1 =
       Inr ((a1, i1), st1) \<and> a1 \<and>
     (\<exists>i2. check_rate_limit (env_at 120) st1 (''tenant:'' @ ''slug:acme'') ''default'' (100 * 10) 1 =
        Inr ((True, i2), fresh_state\<lparr>redis :=
            Map.empty(''rate_limit:ip:10.0.0.1:default:2'' \<mapsto> (1, Some 180),
                      ''rate_limit:tenant:slug:acme:default:2'' \<mapsto> (1, Some 180))\<rparr>)))"
proof -
  have cfg: "get_rate_limit_config ''default'' = (100, 1)"
    by (simp add: get_rate_limit_config_def RATE_LIMITS_def)
  have run: "apply_rate_limit ''default'' True True (env_at 120) fresh_state slug_request =
     Inr (Invoked, fresh_state\<lparr>redis :=
            Map.empty(''rate_limit:ip:10.0.0.1:default:2'' \<mapsto> (1, Some 180),
                      ''rate_limit:tenant:slug:acme:default:2'' \<mapsto> (1, Some 180))\<rparr>)"
    by (simp add: apply_rate_limit_def tenant_check_def tenant_id_of_def get_rate_limit_config_def
        RATE_LIMITS_def get_client_ip_def slug_request_def check_rate_limit_def
        get_rate_limit_key_def env_at_def fresh_state_def redis_get_def redis_live_def redis_incr_def
        redis_expire_def str_int_def str_nat.simps digit_char_def Let_def)
  have tid: "tenant_id_of slug_request = Some ''slug:acme''"
    by (simp add: tenant_id_of_def slug_request_def)
  show ?thesis using dual_axis_limiting [OF cfg run] cfg run tid by auto
qed

text \<open>
  Claim C2, as stated, fails for a request that determines no tenant: the handler is
  invoked after the IP-scoped check alone. The request below has no user and no
  \<open>X-Tenant-Slug\<close> header; the decorated call invokes the handler and the only counter
  it touches is the IP's.
\<close>

theorem handler_runs_without_tenant_check:
  "apply_rate_limit ''default'' True True (env_at 120) fresh_state anonymous_request =
     Inr (Invoked, fresh_state\<lparr>redis := Map.empty(''rate_limit:ip:10.0.0.1:default:2'' \<mapsto> (1, Some 180))\<rparr>) \<and>
   tenant_id_of anonymous_request = None"
  by (simp add: apply_rate_limit_def tenant_check_def tenant_id_of_def get_rate_limit_config_def
      RATE_LIMITS_def get_client_ip_def anonymous_request_def check_rate_limit_def
      get_rate_limit_key_def env_at_def fresh_state_def redis_get_def redis_live_def redis_incr_def
      redis_expire_def str_int_def str_nat.simps digit_char_def Let_def)

text \<open>
  Claim C10. A request that determines no tenant (no user and no \<open>X-Tenant-Slug\<close>
  header) is treated by the dual-axis decorator exactly as by the decorator with the
  tenant axis switched off: only the IP-scoped limit governs it. For a request without
  a user the tenant is \<open>slug:\<close> followed by the raw header value, and the tenant-scoped
  check counts under \<open>tenant:slug:<slug>\<close>: no tenant table is consulted. For a
  request with a user it is the payload's \<open>tenant_id\<close>, so unless that id is itself
  \<open>slug:<slug>\<close> the two requests of one tenant are counted under different keys.
\<close>

theorem tenant_axis_identity:
  "(tenant_id_of req = None \<longrightarrow>
      apply_rate_limit ep True True e st req = apply_rate_limit ep False True e st req) \<and>
   (current_user req = None \<and> headers req ''X-Tenant-Slug'' = None \<longrightarrow> tenant_id_of req = None) \<and>
   (current_user req = None \<and> headers req ''X-Tenant-Slug'' = Some slug \<and> slug \<noteq> [] \<longrightarrow>
      tenant_id_of req = Some (''slug:'' @ slug) \<and>
      tenant_check ep True L w e st req =
        (case check_rate_limit e st (''tenant:slug:'' @ slug) ep (L * 10) w of
           Inl err \<Rightarrow> Inl err
         | Inr ((allowed, rate_info), st') \<Rightarrow>
             if allowed then Inr (Invoked, st')
             else Inr (Rejected (rate_limit_exceeded ''Too many requests from your organization''
                                   rate_info w), st'))) \<and>
   (current_user req = Some u \<and> u ''tenant_id'' = Some tid \<and> tid \<noteq> [] \<longrightarrow>
      tenant_id_of req = Some tid) \<and>
   (tid \<noteq> ''slug:'' @ slug \<and> w * 60 \<noteq> 0 \<longrightarrow>
      get_rate_limit_key t (''tenant:'' @ tid) ep w \<noteq>
      get_rate_limit_key t (''tenant:'' @ ''slug:'' @ slug) ep w)"
proof (intro conjI impI)
  assume "tenant_id_of req = None"
  then show "apply_rate_limit ep True True e st req = apply_rate_limit ep False True e st req"
    by (auto simp: apply_rate_limit_def tenant_check_def Let_def split: prod.splits sum.splits)
next
  assume "current_user req = None \<and> headers req ''X-Tenant-Slug'' = None"
  then show "tenant_id_of req = None" by (simp add: tenant_id_of_def)
next
  assume h: "current_user req = None \<and> headers req ''X-Tenant-Slug'' = Some slug \<and> slug \<noteq> []"
  then show t: "tenant_id_of req = Some (''slug:'' @ slug)" by (simp add: tenant_id_of_def)
  show "tenant_check ep True L w e st req =
        (case check_rate_limit e st (''tenant:slug:'' @ slug) ep (L * 10) w of
           Inl err \<Rightarrow> Inl err
         | Inr ((allowed, rate_info), st') \<Rightarrow>
             if allowed then Inr (Invoked, st')
             else Inr (Rejected (rate_limit_exceeded ''Too many requests from your organization''
                                   rate_info w), st'))"
    using t by (auto simp: tenant_check_def split: sum.splits)
next
  assume "current_user req = Some u \<and> u ''tenant_id'' = Some tid \<and> tid \<noteq> []"
  then show "tenant_id_of req = Some tid" by (simp add: tenant_id_of_def)
next
  assume "tid \<noteq> ''slug:'' @ slug \<and> w * 60 \<noteq> 0"
  then show "get_rate_limit_key t (''tenant:'' @ tid) ep w \<noteq>
      get_rate_limit_key t (''tenant:'' @ ''slug:'' @ slug) ep w"
    by (simp add: get_rate_limit_key_def)
qed

theorem tenant_axis_identity_witness:
  "tenant_id_of anonymous_request = None \<and>
   apply_rate_limit ''default'' True True (env_at 120) fresh_state anonymous_request =
     apply_rate_limit ''default'' False True (env_at 120) fresh_state anonymous_request \<and>
   tenant_id_of slug_request = Some ''slug:acme'' \<and>
   tenant_id_of user_request = Some ''42'' \<and>
   get_rate_limit_key 120 ''tenant:42'' ''default'' 1 \<noteq>
     get_rate_limit_key 120 ''tenant:slug:acme'' ''default'' 1"
proof -
  have a: "current_user anonymous_request = None \<and> headers anonymous_request ''X-Tenant-Slug'' = None"
    by (simp add: anonymous_request_def)
  have s: "current_user slug_request = None \<and> headers slug_request ''X-Tenant-Slug'' = Some ''acme'' \<and> ''acme'' \<noteq> []"
    by (simp add: slug_request_def)
  have u: "current_user user_request = Some [''user_id'' \<mapsto> ''7'', ''tenant_id'' \<mapsto> ''42'', ''role'' \<mapsto> ''staff''] \<and>
           [''user_id'' \<mapsto> ''7'', ''tenant_id'' \<mapsto> ''42'', ''role'' \<mapsto> ''staff''] ''tenant_id'' = Some ''42'' \<and> ''42'' \<noteq> []"
    by (simp add: user_request_def)
  have k: "''42'' \<noteq> ''slug:'' @ ''acme'' \<and> (1::int) * 60 \<noteq> 0" by simp
  note A = tenant_axis_identity [of anonymous_request "''default''" "env_at 120" fresh_state]
  note S = tenant_axis_identity [of slug_request _ _ _ "''acme''"]
  note U = tenant_axis_identity [of user_request _ _ _ _ _ _
      "[''user_id'' \<mapsto> ''7'', ''tenant_id'' \<mapsto> ''42'', ''role'' \<mapsto> ''staff'']" "''42''"]
  note K = tenant_axis_identity [of _ "''default''" _ _ "''acme''" _ 1 _ "''42''" 120]
  have 1: "tenant_id_of anonymous_request = None" using A a by blast
  have 2: "apply_rate_limit ''default'' True True (env_at 120) fresh_state anonymous_request =
     apply_rate_limit ''default'' False True (env_at 120) fresh_state anonymous_request"
    using A 1 by blast
  have 3: "tenant_id_of slug_request = Some ''slug:acme''" using S s by simp
  have 4: "tenant_id_of user_request = Some ''42''" using U u by blast
  have 5: "get_rate_limit_key 120 ''tenant:42'' ''default'' 1 \<noteq>
     get_rate_limit_key 120 ''tenant:slug:acme'' ''default'' 1" using K k by simp
  show ?thesis using 1 2 3 4 5 by simp
qed

section \<open>Properties of authentication and authorization\<close>

subsection \<open>Tokens\<close>

text \<open>
  Claim C3. With the signing secret set, a token issued at time \<open>t0\<close> for a user id,
  tenant id and role verifies at every time from \<open>t0\<close> up to, but not including, its
  expiry \<open>t0 + 24 h\<close>, however often it is verified, and each verification returns
  exactly that user id, tenant id and role.
\<close>

theorem verify_issued_token:
  assumes secret: "environ ''JWT_SECRET_KEY'' = Some key" "key \<noteq> []"
    and times: "\<forall>t \<in> set ts. t0 \<le> t \<and> t < t0 + 24 * 3600"
  shows "\<exists>tok. generate_jwt_token environ t0 uid tid r = Inr tok \<and>
           (\<forall>t \<in> set ts. \<exists>payload. decode_jwt_token environ t tok = Inr payload \<and>
              user_id payload = uid \<and> tenant_id payload = tid \<and> role payload = r)"
proof -
  define tok where "tok = jwt_encode \<lparr>user_id = uid, tenant_id = tid, role = r, exp = t0 + 24 * 3600, iat = t0\<rparr> key"
  have g: "generate_jwt_token environ t0 uid tid r = Inr tok"
    using secret by (simp add: generate_jwt_token_def tok_def Let_def)
  have "\<exists>payload. decode_jwt_token environ t tok = Inr payload \<and>
              user_id payload = uid \<and> tenant_id payload = tid \<and> role payload = r"
    if "t \<in> set ts" for t
  proof -
    have "t0 \<le> t" "t < t0 + 24 * 3600" using times that by auto
    then show ?thesis
      using secret by (simp add: decode_jwt_token_def jwt_decode_def jwt_encode_def tok_def Let_def)
  qed
  with g show ?thesis by blast
qed

theorem verify_issued_token_witness:
  "\<exists>tok. generate_jwt_token env_with_secret 1000 ''7'' ''1'' ''admin'' = Inr tok \<and>
     (\<forall>t \<in> set [1000, 1001, 50000, 87399].
        \<exists>payload. decode_jwt_token env_with_secret t tok = Inr payload \<and>
          user_id payload = ''7'' \<and> tenant_id payload = ''1'' \<and> role payload = ''admin'')"
proof -
  have s: "env_with_secret ''JWT_SECRET_KEY'' = Some ''s3cret''" "''s3cret'' \<noteq> []"
    by (simp_all add: env_with_secret_def)
  have t: "\<forall>t \<in> set [1000, 1001, 50000, 87399 :: int]. 1000 \<le> t \<and> t < 1000 + 24 * 3600"
    by simp
  show ?thesis
    using verify_issued_token [of env_with_secret "''s3cret''" "[1000, 1001, 50000, 87399]" 1000
        "''7''" "''1''" "''admin''", OF s t] .
qed

text \<open>
  Claim C4, as the code has it. The token functions read the secret from the
  environment at every call and raise \<open>ValueError\<close> when it is unset or empty. Only
  the program's own main block checks it at startup: started that way with the secret
  missing the process exits with status 1, and while the environment it started with
  stands, issuing succeeds and verifying never fails for a missing secret. A process
  that imports the module starts without the check.
\<close>

theorem secret_checked_at_call_time:
  "(main_guard AsMain environ = Serving \<longrightarrow>
      (\<exists>tok. generate_jwt_token environ t uid tid r = Inr tok) \<and>
      decode_jwt_token environ t tok' \<noteq> Inl (ValueError ''JWT_SECRET_KEY environment variable not set'')) \<and>
   (environ ''JWT_SECRET_KEY'' = None \<or> environ ''JWT_SECRET_KEY'' = Some [] \<longrightarrow>
      main_guard AsMain environ = Exited 1 \<and>
      main_guard Imported environ = Serving \<and>
      generate_jwt_token environ t uid tid r =
        Inl (ValueError ''JWT_SECRET_KEY environment variable not set'') \<and>
      decode_jwt_token environ t tok' =
        Inl (ValueError ''JWT_SECRET_KEY environment variable not set''))"
proof (intro conjI impI)
  assume a: "main_guard AsMain environ = Serving"
  then have s: "environ ''JWT_SECRET_KEY'' \<noteq> None \<and> environ ''JWT_SECRET_KEY'' \<noteq> Some []"
    by (auto simp: main_guard_def Let_def split: if_splits)
  then show "\<exists>tok. generate_jwt_token environ t uid tid r = Inr tok"
    by (simp add: generate_jwt_token_def Let_def)
  show "decode_jwt_token environ t tok' \<noteq> Inl (ValueError ''JWT_SECRET_KEY environment variable not set'')"
    using s by (auto simp: decode_jwt_token_def Let_def split: sum.splits jwt_error.splits)
next
  assume m: "environ ''JWT_SECRET_KEY'' = None \<or> environ ''JWT_SECRET_KEY'' = Some []"
  then show "main_guard AsMain environ = Exited 1" by (auto simp: main_guard_def Let_def)
  show "main_guard Imported environ = Serving" by (simp add: main_guard_def)
  show "generate_jwt_token environ t uid tid r =
        Inl (ValueError ''JWT_SECRET_KEY environment variable not set'')"
    using m by (auto simp: generate_jwt_token_def Let_def)
  show "decode_jwt_token environ t tok' =
        Inl (ValueError ''JWT_SECRET_KEY environment variable not set'')"
    using m by (auto simp: decode_jwt_token_def Let_def)
qed

theorem secret_checked_at_call_time_witness:
  "main_guard AsMain env_with_secret = Serving \<and>
   (\<exists>tok. generate_jwt_token env_with_secret 1000 ''7'' ''1'' ''admin'' = Inr tok) \<and>
   decode_jwt_token env_with_secret 1000 (NotAToken ''x'') \<noteq>
     Inl (ValueError ''JWT_SECRET_KEY environment variable not set'') \<and>
   main_guard AsMain env_without_secret = Exited 1 \<and>
   generate_jwt_token env_without_secret 1000 ''7'' ''1'' ''admin'' =
     Inl (ValueError ''JWT_SECRET_KEY environment variable not set'')"
proof -
  have a: "main_guard AsMain env_with_secret = Serving"
    by (simp add: main_guard_def env_with_secret_def)
  have b: "env_without_secret ''JWT_SECRET_KEY'' = None \<or> env_without_secret ''JWT_SECRET_KEY'' = Some []"
    by (simp add: env_without_secret_def)
  show ?thesis
    using secret_checked_at_call_time [of env_with_secret 1000 "''7''" "''1''" "''admin''" "NotAToken ''x''"]
      secret_checked_at_call_time [of env_without_secret 1000 "''7''" "''1''" "''admin''" "NotAToken ''x''"]
      a b by blast
qed

text \<open>
  Claim C4, as stated, fails for a process that serves the imported module: it starts
  without the secret, and issuing and verifying then raise at run time.
\<close>

theorem missing_secret_fails_at_run_time:
  "main_guard Imported env_without_secret = Serving \<and>
   generate_jwt_token env_without_secret 1000 ''7'' ''1'' ''admin'' =
     Inl (ValueError ''JWT_SECRET_KEY environment variable not set'') \<and>
   decode_jwt_token env_without_secret 1000 (NotAToken ''x'') =
     Inl (ValueError ''JWT_SECRET_KEY environment variable not set'')"
  by (simp add: main_guard_def generate_jwt_token_def decode_jwt_token_def env_without_secret_def)

subsection \<open>The role gate\<close>

text \<open>
  Claim C7. For a request that carries a user, the role gate invokes the handler
  exactly when the user's role is the required role or is \<open>admin\<close>; \<open>admin\<close> passes
  every requirement; any other role, or none, is answered with status 403 and the
  handler is not invoked.
\<close>

theorem require_role_admin_or_equal:
  assumes "current_user req = Some u"
  shows "(require_role required_role req = Invoked) =
           (u ''role'' = Some required_role \<or> u ''role'' = Some ''admin'') \<and>
         (u ''role'' = Some ''admin'' \<longrightarrow> require_role required_role req = Invoked) \<and>
         (u ''role'' \<noteq> Some required_role \<and> u ''role'' \<noteq> Some ''admin'' \<longrightarrow>
            require_role required_role req =
              Rejected \<lparr>http_status = 403, error_text = ''Insufficient privileges'',
                        message_text = None\<rparr>)"
  using assms by (auto simp: require_role_def Let_def)

theorem require_role_admin_or_equal_witness:
  "require_role ''staff'' user_request = Invoked \<and>
   require_role ''admin'' user_request =
     Rejected \<lparr>http_status = 403, error_text = ''Insufficient privileges'', message_text = None\<rparr> \<and>
   require_role ''staff'' admin_request = Invoked"
proof -
  have u: "current_user user_request =
      Some [''user_id'' \<mapsto> ''7'', ''tenant_id'' \<mapsto> ''42'', ''role'' \<mapsto> ''staff'']"
    by (simp add: user_request_def)
  have a: "current_user admin_request =
      Some [''user_id'' \<mapsto> ''1'', ''tenant_id'' \<mapsto> ''42'', ''role'' \<mapsto> ''admin'']"
    by (simp add: admin_request_def)
  show ?thesis
    using require_role_admin_or_equal [OF u, of "''staff''"]
      require_role_admin_or_equal [OF u, of "''admin''"]
      require_role_admin_or_equal [OF a, of "''staff''"]
    by simp
qed

subsection \<open>Password verification\<close>

lemma utf8_bytes_ascii: "of_char c < (128::nat) \<Longrightarrow> utf8_bytes (of_char c) = [c]"
  by (simp add: utf8_bytes_def)

lemma not_surrogate_char: "\<not> is_surrogate (of_char c)"
proof -
  have "(of_char c :: nat) < 256" by simp
  then show ?thesis unfolding is_surrogate_def by linarith
qed

lemma utf8_encode_ascii:
  assumes "\<forall>c \<in> set s. of_char c < (128::nat)"
  shows "utf8_encode (text_of s) = Inr s"
proof -
  have a: "\<not> list_ex is_surrogate (text_of s)"
    by (simp add: text_of_def list_ex_iff not_surrogate_char)
  have b: "concat (map utf8_bytes (text_of s)) = s"
    using assms by (induction s) (simp_all add: text_of_def utf8_bytes_ascii)
  show ?thesis using a b by (simp add: utf8_encode_def)
qed

lemma parse_sample: "parse_salt ''$2b$12$abcdefghijklmnopqrstuvhunter2'' = Some (''2b'', 12, ''abcdefghijklmnopqrstuv'')"
  by (simp add: parse_salt_def parse_nat_def digit_val_def is_digit_def is_alpha_def bcrypt_char_def)

lemma parse_bad: "parse_salt ''not-a-bcrypt-hash'' = None"
  by (simp add: parse_salt_def)

lemma encode_samples:
  "utf8_encode (text_of ''hunter2'') = Inr ''hunter2''"
  "utf8_encode (text_of ''letmein'') = Inr ''letmein''"
  "utf8_encode (text_of ''not-a-bcrypt-hash'') = Inr ''not-a-bcrypt-hash''"
  "utf8_encode (text_of ''$2b$12$abcdefghijklmnopqrstuvhunter2'') = Inr ''$2b$12$abcdefghijklmnopqrstuvhunter2''"
  by (simp_all add: utf8_encode_ascii)

text \<open>
  Claim C5, as the code has it. \<open>verify_password\<close> catches nothing. When both strings
  encode as UTF-8 it returns exactly what \<open>bcrypt.checkpw\<close> returns on the encodings,
  and raises exactly what it raises; when the password or the hash holds a lone
  surrogate it raises \<open>UnicodeEncodeError\<close>. So it returns a boolean exactly when both
  strings encode and the library returns one: where the library raises on a hash it
  cannot read, \<open>verify_password\<close> raises too and does not return false. This holds
  for every behaviour of the library.
\<close>

theorem verify_password_passes_exceptions:
  "(utf8_encode password = Inr p \<and> utf8_encode hashed = Inr h \<longrightarrow>
      verify_password checkpw password hashed = checkpw p h) \<and>
   (list_ex is_surrogate password \<or> list_ex is_surrogate hashed \<longrightarrow>
      verify_password checkpw password hashed = Inl UnicodeEncodeError) \<and>
   ((\<exists>b. verify_password checkpw password hashed = Inr b) =
      (\<exists>p' h' b. utf8_encode password = Inr p' \<and> utf8_encode hashed = Inr h' \<and>
                  checkpw p' h' = Inr b))"
proof (intro conjI impI)
  assume "utf8_encode password = Inr p \<and> utf8_encode hashed = Inr h"
  then show "verify_password checkpw password hashed = checkpw p h"
    by (simp add: verify_password_def)
next
  assume "list_ex is_surrogate password \<or> list_ex is_surrogate hashed"
  then show "verify_password checkpw password hashed = Inl UnicodeEncodeError"
    by (auto simp: verify_password_def utf8_encode_def)
next
  show "(\<exists>b. verify_password checkpw password hashed = Inr b) =
      (\<exists>p' h' b. utf8_encode password = Inr p' \<and> utf8_encode hashed = Inr h' \<and>
                  checkpw p' h' = Inr b)"
    by (auto simp: verify_password_def split: sum.splits)
qed

theorem verify_password_passes_exceptions_witness:
  "verify_password (bcrypt_checkpw toy_kdf) (text_of ''hunter2'')
       (text_of ''$2b$12$abcdefghijklmnopqrstuvhunter2'') =
     bcrypt_checkpw toy_kdf ''hunter2'' ''$2b$12$abcdefghijklmnopqrstuvhunter2'' \<and>
   bcrypt_checkpw toy_kdf ''hunter2'' ''$2b$12$abcdefghijklmnopqrstuvhunter2'' = Inr True \<and>
   verify_password (bcrypt_checkpw toy_kdf) [0xD800]
       (text_of ''$2b$12$abcdefghijklmnopqrstuvhunter2'') = Inl UnicodeEncodeError"
proof -
  have s: "list_ex is_surrogate [0xD800] \<or>
           list_ex is_surrogate (text_of ''$2b$12$abcdefghijklmnopqrstuvhunter2'')"
    by (simp add: is_surrogate_def)
  have e: "utf8_encode (text_of ''hunter2'') = Inr ''hunter2'' \<and>
           utf8_encode (text_of ''$2b$12$abcdefghijklmnopqrstuvhunter2'') =
             Inr ''$2b$12$abcdefghijklmnopqrstuvhunter2''"
    by (simp add: encode_samples)
  have t: "bcrypt_checkpw toy_kdf ''hunter2'' ''$2b$12$abcdefghijklmnopqrstuvhunter2'' = Inr True"
    by (simp add: bcrypt_checkpw_def parse_sample toy_kdf_def)
  show ?thesis
    using verify_password_passes_exceptions [of "text_of ''hunter2''" "''hunter2''"
        "text_of ''$2b$12$abcdefghijklmnopqrstuvhunter2''" "''$2b$12$abcdefghijklmnopqrstuvhunter2''"
        "bcrypt_checkpw toy_kdf"]
      verify_password_passes_exceptions [of "[0xD800]" _
        "text_of ''$2b$12$abcdefghijklmnopqrstuvhunter2''" _ "bcrypt_checkpw toy_kdf"]
      s e t by blast
qed

text \<open>
  Claim C5, as stated, fails twice: on the malformed hash \<open>not-a-bcrypt-hash\<close> the
  library's \<open>ValueError\<close> reaches the caller instead of the answer false, and on the
  password \<open>"\ud800"\<close> the encoding raises whatever the hash is.
\<close>

theorem verify_password_malformed_hash:
  "verify_password (bcrypt_checkpw toy_kdf) (text_of ''hunter2'') (text_of ''not-a-bcrypt-hash'') =
     Inl (ValueError ''Invalid salt'') \<and>
   verify_password (bcrypt_checkpw toy_kdf) [0xD800]
     (text_of ''$2b$12$abcdefghijklmnopqrstuvhunter2'') = Inl UnicodeEncodeError"
proof
  show "verify_password (bcrypt_checkpw toy_kdf) (text_of ''hunter2'') (text_of ''not-a-bcrypt-hash'') =
     Inl (ValueError ''Invalid salt'')"
    by (simp add: verify_password_def encode_samples bcrypt_checkpw_def parse_bad)
  show "verify_password (bcrypt_checkpw toy_kdf) [0xD800]
     (text_of ''$2b$12$abcdefghijklmnopqrstuvhunter2'') = Inl UnicodeEncodeError"
    by (simp add: verify_password_def utf8_encode_def is_surrogate_def)
qed

subsection \<open>Tenant resolution\<close>

lemma valid_emails:
  "validate_email (text_of ''alice@acme.com'')"
  "validate_email (text_of ''nobody@acme.com'')"
  "validate_email (text_of ''bob@acme.com'')"
  by (simp_all add: validate_email_def text_of_def Let_def local_char_def domain_char_def
      is_alpha_def is_digit_def)

lemma validate_email_nonempty: "validate_email email \<Longrightarrow> email \<noteq> []"
  by (auto simp: validate_email_def Let_def)

lemma find_tenant_sample:
  "find_tenant sample_db (text_of ''acme'') =
     Inr (Some \<lparr>t_id = ''1'', t_slug = text_of ''acme'', t_is_active = True\<rparr>)"
  "find_tenant sample_db (text_of ''closed'') = Inr None"
  "find_tenant sample_db (text_of ''ghost'') = Inr None"
  by (simp_all add: find_tenant_def adapt_param_def sample_db_def text_of_def is_surrogate_def)

lemma find_tenant_active:
  assumes "find_tenant d tenant_slug = Inr (Some tenant)"
  shows "tenant \<in> set (tenants d) \<and> t_slug tenant = tenant_slug \<and> t_is_active tenant"
proof -
  have a: "adapt_param tenant_slug = Inr tenant_slug"
    using assms by (auto simp: find_tenant_def adapt_param_def split: if_splits sum.splits)
  then have "find (\<lambda>t. t_slug t = tenant_slug \<and> t_is_active t) (tenants d) = Some tenant"
    using assms by (simp add: find_tenant_def)
  then show ?thesis by (auto simp: find_Some_iff)
qed

text \<open>
  Claim C8, as the code has it. For a request without a user that names a slug in
  \<open>X-Tenant-Slug\<close>: when the store answers and the slug resolves to no active tenant,
  \<open>get_tenant_from_request\<close> returns \<open>None\<close>, so the rejection is its caller's, and
  \<open>authenticate_user\<close>, given a well-formed email and non-empty password and slug,
  raises \<open>AuthenticationError("Invalid tenant")\<close> for that slug. A tenant id that
  \<open>get_tenant_from_request\<close> returns is the id of an active tenant with that slug.
  When the store is unreachable and the slug is not empty, \<open>get_tenant_from_request\<close>
  raises the store's error.
\<close>

theorem tenant_resolution_returns_none:
  assumes "current_user req = None" "headers req ''X-Tenant-Slug'' = Some tenant_slug"
  shows "(db_up e \<and> find_tenant d (text_of tenant_slug) = Inr None \<longrightarrow>
            get_tenant_from_request e d req = Inr None \<and>
            (validate_email email \<and> password \<noteq> [] \<and> tenant_slug \<noteq> [] \<longrightarrow>
               authenticate_user checkpw e d email password (text_of tenant_slug) =
                 Inl (AuthenticationError ''Invalid tenant''))) \<and>
         (\<forall>tid. get_tenant_from_request e d req = Inr (Some tid) \<longrightarrow>
            (\<exists>tenant \<in> set (tenants d).
               t_slug tenant = text_of tenant_slug \<and> t_is_active tenant \<and> t_id tenant = tid)) \<and>
         (\<not> db_up e \<and> tenant_slug \<noteq> [] \<longrightarrow> get_tenant_from_request e d req = Inl DbError)"
proof (intro conjI impI allI)
  assume n: "db_up e \<and> find_tenant d (text_of tenant_slug) = Inr None"
  show "get_tenant_from_request e d req = Inr None"
    using assms n by (simp add: get_tenant_from_request_def)
  assume v: "validate_email email \<and> password \<noteq> [] \<and> tenant_slug \<noteq> []"
  then have "email \<noteq> []" using validate_email_nonempty by blast
  moreover have "text_of tenant_slug \<noteq> []" using v by (simp add: text_of_def)
  ultimately show "authenticate_user checkpw e d email password (text_of tenant_slug) =
                 Inl (AuthenticationError ''Invalid tenant'')"
    using n v by (simp add: authenticate_user_def)
next
  fix tid assume g: "get_tenant_from_request e d req = Inr (Some tid)"
  then obtain tenant where f: "find_tenant d (text_of tenant_slug) = Inr (Some tenant)" "t_id tenant = tid"
    using assms by (auto simp: get_tenant_from_request_def split: if_splits option.splits sum.splits)
  then show "\<exists>tenant \<in> set (tenants d).
               t_slug tenant = text_of tenant_slug \<and> t_is_active tenant \<and> t_id tenant = tid"
    using find_tenant_active [OF f(1)] by blast
next
  assume "\<not> db_up e \<and> tenant_slug \<noteq> []"
  then show "get_tenant_from_request e d req = Inl DbError"
    using assms by (simp add: get_tenant_from_request_def)
qed

theorem tenant_resolution_returns_none_witness:
  "get_tenant_from_request (env_at 1000) sample_db (request_for ''closed'') = Inr None \<and>
   authenticate_user (bcrypt_checkpw toy_kdf) (env_at 1000) sample_db (text_of ''alice@acme.com'')
       (text_of ''hunter2'') (text_of ''closed'') =
     Inl (AuthenticationError ''Invalid tenant'') \<and>
   get_tenant_from_request (env_at 1000) sample_db (request_for ''acme'') = Inr (Some ''1'') \<and>
   (\<exists>tenant \<in> set (tenants sample_db).
      t_slug tenant = text_of ''acme'' \<and> t_is_active tenant \<and> t_id tenant = ''1'') \<and>
   get_tenant_from_request (db_down_at 1000) sample_db (request_for ''acme'') = Inl DbError"
proof -
  have c: "current_user (request_for ''closed'') = None"
    "headers (request_for ''closed'') ''X-Tenant-Slug'' = Some ''closed''"
    by (simp_all add: request_for_def)
  have a: "current_user (request_for ''acme'') = None"
    "headers (request_for ''acme'') ''X-Tenant-Slug'' = Some ''acme''"
    by (simp_all add: request_for_def)
  have up: "db_up (env_at 1000)" "\<not> db_up (db_down_at 1000)"
    by (simp_all add: env_at_def db_down_at_def)
  have g: "get_tenant_from_request (env_at 1000) sample_db (request_for ''acme'') = Inr (Some ''1'')"
    by (simp add: get_tenant_from_request_def request_for_def find_tenant_sample env_at_def)
  have p: "text_of ''hunter2'' \<noteq> []" "''closed'' \<noteq> []" "''acme'' \<noteq> []"
    by (simp_all add: text_of_def)
  note A = tenant_resolution_returns_none [OF c, of "env_at 1000" sample_db
      "text_of ''alice@acme.com''" "text_of ''hunter2''" "bcrypt_checkpw toy_kdf"]
  note B = tenant_resolution_returns_none [OF a, of "env_at 1000" sample_db]
  note C = tenant_resolution_returns_none [OF a, of "db_down_at 1000" sample_db]
  have 1: "get_tenant_from_request (env_at 1000) sample_db (request_for ''closed'') = Inr None"
    using A up(1) find_tenant_sample(2) by blast
  have 2: "authenticate_user (bcrypt_checkpw toy_kdf) (env_at 1000) sample_db (text_of ''alice@acme.com'')
       (text_of ''hunter2'') (text_of ''closed'') = Inl (AuthenticationError ''Invalid tenant'')"
    using A up(1) find_tenant_sample(2) valid_emails(1) p by blast
  have 3: "\<exists>tenant \<in> set (tenants sample_db).
      t_slug tenant = text_of ''acme'' \<and> t_is_active tenant \<and> t_id tenant = ''1''"
    using B g by blast
  have 4: "get_tenant_from_request (db_down_at 1000) sample_db (request_for ''acme'') = Inl DbError"
    using C up(2) p(3) by blast
  show ?thesis using 1 2 g 3 4 by simp
qed

text \<open>
  Claim C8, as stated, fails for \<open>get_tenant_from_request\<close>: with the store answering,
  for an unknown slug and for the slug of an inactive tenant it returns normally, with
  \<open>None\<close>, instead of rejecting the request.
\<close>

theorem tenant_resolution_does_not_reject:
  "get_tenant_from_request (env_at 1000) sample_db (request_for ''ghost'') = Inr None \<and>
   get_tenant_from_request (env_at 1000) sample_db (request_for ''closed'') = Inr None"
  by (simp add: get_tenant_from_request_def request_for_def find_tenant_sample env_at_def)

subsection \<open>Login failures\<close>

lemma find_user_sample:
  "find_user sample_db (text_of ''nobody@acme.com'') ''1'' = Inr None"
  "find_user sample_db (text_of ''alice@acme.com'') ''1'' =
     Inr (Some \<lparr>u_id = ''7'', u_tenant_id = ''1'', u_email = text_of ''alice@acme.com'',
            u_password_hash = text_of ''$2b$12$abcdefghijklmnopqrstuvhunter2'',
            u_role = ''admin'', u_is_active = True, u_last_login = None\<rparr>)"
  "find_user sample_db (text_of ''bob@acme.com'') ''1'' =
     Inr (Some \<lparr>u_id = ''8'', u_tenant_id = ''1'', u_email = text_of ''bob@acme.com'',
            u_password_hash = text_of ''$2b$12$abcdefghijklmnopqrstuvhunter2'',
            u_role = ''staff'', u_is_active = False, u_last_login = None\<rparr>)"
  by (simp_all add: find_user_def adapt_param_def sample_db_def text_of_def is_surrogate_def)

lemma verify_wrong_sample:
  "verify_password (bcrypt_checkpw toy_kdf) (text_of ''letmein'')
     (text_of ''$2b$12$abcdefghijklmnopqrstuvhunter2'') = Inr False"
  by (simp add: verify_password_def encode_samples bcrypt_checkpw_def parse_sample toy_kdf_def)

text \<open>
  Claim C6, as the code has it. Against one active tenant, with well-formed emails,
  non-empty fields and the store answering both attempts: an attempt for an email that
  has no user raises \<open>AuthenticationError("Invalid credentials")\<close>, answered with
  status 401. An attempt for a user who exists raises the very same exception, at
  whatever time it is made, when the user is active and the verification of the
  password against the stored hash returns false. When the user is disabled it raises
  "Account is disabled" instead, and when the verification itself raises (a password
  that does not encode, a stored hash the library cannot read) that exception reaches
  the caller instead.
\<close>

theorem login_failures_indistinguishable:
  assumes emails: "validate_email email_a" "validate_email email_b"
    and fields: "password_a \<noteq> []" "password_b \<noteq> []" "tenant_slug \<noteq> []"
    and up: "db_up e" "db_up e'"
    and tenant: "find_tenant d tenant_slug = Inr (Some tenant)"
    and absent: "find_user d email_a (t_id tenant) = Inr None"
    and present: "find_user d email_b (t_id tenant) = Inr (Some user)"
  shows "authenticate_user checkpw e d email_a password_a tenant_slug =
           Inl (AuthenticationError ''Invalid credentials'') \<and>
         login_error_response (AuthenticationError ''Invalid credentials'') =
           \<lparr>http_status = 401, error_text = ''Authentication failed'',
            message_text = Some ''Invalid credentials''\<rparr> \<and>
         (u_is_active user \<and>
          verify_password checkpw password_b (u_password_hash user) = Inr False \<longrightarrow>
            authenticate_user checkpw e' d email_b password_b tenant_slug =
              authenticate_user checkpw e d email_a password_a tenant_slug) \<and>
         (\<not> u_is_active user \<longrightarrow>
            authenticate_user checkpw e' d email_b password_b tenant_slug =
              Inl (AuthenticationError ''Account is disabled'')) \<and>
         (\<forall>err. u_is_active user \<and>
            verify_password checkpw password_b (u_password_hash user) = Inl err \<longrightarrow>
              authenticate_user checkpw e' d email_b password_b tenant_slug = Inl err)"
proof -
  have ne: "email_a \<noteq> []" "email_b \<noteq> []"
    using emails validate_email_nonempty by auto
  have a: "authenticate_user checkpw e d email_a password_a tenant_slug =
           Inl (AuthenticationError ''Invalid credentials'')"
    using emails(1) ne(1) fields up tenant absent by (simp add: authenticate_user_def)
  have b: "authenticate_user checkpw e' d email_b password_b tenant_slug =
           Inl (AuthenticationError ''Invalid credentials'')"
    if "u_is_active user" "verify_password checkpw password_b (u_password_hash user) = Inr False"
    using emails(2) ne(2) fields up tenant present that by (simp add: authenticate_user_def)
  have c: "authenticate_user checkpw e' d email_b password_b tenant_slug =
           Inl (AuthenticationError ''Account is disabled'')"
    if "\<not> u_is_active user"
    using emails(2) ne(2) fields up tenant present that by (simp add: authenticate_user_def)
  have r: "authenticate_user checkpw e' d email_b password_b tenant_slug = Inl err"
    if "u_is_active user" "verify_password checkpw password_b (u_password_hash user) = Inl err" for err
    using emails(2) ne(2) fields up tenant present that by (simp add: authenticate_user_def)
  have l: "login_error_response (AuthenticationError ''Invalid credentials'') =
           \<lparr>http_status = 401, error_text = ''Authentication failed'',
            message_text = Some ''Invalid credentials''\<rparr>"
    by (simp add: login_error_response_def handle_auth_error_def)
  show ?thesis using a b c r l by simp
qed

theorem login_failures_indistinguishable_witness:
  "authenticate_user (bcrypt_checkpw toy_kdf) (env_at 1000) sample_db (text_of ''nobody@acme.com'')
       (text_of ''letmein'') (text_of ''acme'') =
     Inl (AuthenticationError ''Invalid credentials'') \<and>
   authenticate_user (bcrypt_checkpw toy_kdf) (env_at 2000) sample_db (text_of ''alice@acme.com'')
       (text_of ''letmein'') (text_of ''acme'') =
     authenticate_user (bcrypt_checkpw toy_kdf) (env_at 1000) sample_db (text_of ''nobody@acme.com'')
       (text_of ''letmein'') (text_of ''acme'') \<and>
   authenticate_user (bcrypt_checkpw toy_kdf) (env_at 2000) sample_db (text_of ''bob@acme.com'')
       (text_of ''letmein'') (text_of ''acme'') =
     Inl (AuthenticationError ''Account is disabled'') \<and>
   authenticate_user (bcrypt_checkpw toy_kdf) (env_at 2000) sample_db (text_of ''alice@acme.com'')
       [0xD800] (text_of ''acme'') = Inl UnicodeEncodeError"
proof -
  have f: "text_of ''letmein'' \<noteq> []" "text_of ''acme'' \<noteq> []" "[0xD800::nat] \<noteq> []"
    by (simp_all add: text_of_def)
  have up: "db_up (env_at 1000)" "db_up (env_at 2000)" by (simp_all add: env_at_def)
  have tn: "find_tenant sample_db (text_of ''acme'') =
     Inr (Some \<lparr>t_id = ''1'', t_slug = text_of ''acme'', t_is_active = True\<rparr>)"
    by (rule find_tenant_sample(1))
  have ab: "find_user sample_db (text_of ''nobody@acme.com'')
      (t_id \<lparr>t_id = ''1'', t_slug = text_of ''acme'', t_is_active = True\<rparr>) = Inr None"
    by (simp add: find_user_sample)
  have al: "find_user sample_db (text_of ''alice@acme.com'')
      (t_id \<lparr>t_id = ''1'', t_slug = text_of ''acme'', t_is_active = True\<rparr>) =
     Inr (Some \<lparr>u_id = ''7'', u_tenant_id = ''1'', u_email = text_of ''alice@acme.com'',
            u_password_hash = text_of ''$2b$12$abcdefghijklmnopqrstuvhunter2'',
            u_role = ''admin'', u_is_active = True, u_last_login = None\<rparr>)"
    by (simp add: find_user_sample)
  have bo: "find_user sample_db (text_of ''bob@acme.com'')
      (t_id \<lparr>t_id = ''1'', t_slug = text_of ''acme'', t_is_active = True\<rparr>) =
     Inr (Some \<lparr>u_id = ''8'', u_tenant_id = ''1'', u_email = text_of ''bob@acme.com'',
            u_password_hash = text_of ''$2b$12$abcdefghijklmnopqrstuvhunter2'',
            u_role = ''staff'', u_is_active = False, u_last_login = None\<rparr>)"
    by (simp add: find_user_sample)
  have sur: "verify_password (bcrypt_checkpw toy_kdf) [0xD800]
      (text_of ''$2b$12$abcdefghijklmnopqrstuvhunter2'') = Inl UnicodeEncodeError"
    by (simp add: verify_password_def utf8_encode_def is_surrogate_def)
  note A = login_failures_indistinguishable [OF valid_emails(2) valid_emails(1) f(1) f(1) f(2)
      up tn ab al, of "bcrypt_checkpw toy_kdf"]
  note B = login_failures_indistinguishable [OF valid_emails(2) valid_emails(3) f(1) f(1) f(2)
      up tn ab bo, of "bcrypt_checkpw toy_kdf"]
  note C = login_failures_indistinguishable [OF valid_emails(2) valid_emails(1) f(1) f(3) f(2)
      up tn ab al, of "bcrypt_checkpw toy_kdf"]
  have 1: "authenticate_user (bcrypt_checkpw toy_kdf) (env_at 1000) sample_db (text_of ''nobody@acme.com'')
       (text_of ''letmein'') (text_of ''acme'') = Inl (AuthenticationError ''Invalid credentials'')"
    using A by blast
  have 2: "authenticate_user (bcrypt_checkpw toy_kdf) (env_at 2000) sample_db (text_of ''alice@acme.com'')
       (text_of ''letmein'') (text_of ''acme'') =
     authenticate_user (bcrypt_checkpw toy_kdf) (env_at 1000) sample_db (text_of ''nobody@acme.com'')
       (text_of ''letmein'') (text_of ''acme'')"
    using A verify_wrong_sample by simp
  have 3: "authenticate_user (bcrypt_checkpw toy_kdf) (env_at 2000) sample_db (text_of ''bob@acme.com'')
       (text_of ''letmein'') (text_of ''acme'') = Inl (AuthenticationError ''Account is disabled'')"
    using B by simp
  have 4: "authenticate_user (bcrypt_checkpw toy_kdf) (env_at 2000) sample_db (text_of ''alice@acme.com'')
       [0xD800] (text_of ''acme'') = Inl UnicodeEncodeError"
    using C sur by simp
  show ?thesis using 1 2 3 4 by simp
qed

text \<open>
  Claim C6, as stated, fails when the existing user is disabled: the check of
  \<open>is_active\<close> comes before the password check and has a message of its own, so a wrong
  password for bob is answered with "Account is disabled", which tells the caller that
  the account exists.
\<close>

theorem disabled_account_is_revealed:
  "authenticate_user (bcrypt_checkpw toy_kdf) (env_at 1000) sample_db (text_of ''nobody@acme.com'')
       (text_of ''letmein'') (text_of ''acme'') =
     Inl (AuthenticationError ''Invalid credentials'') \<and>
   authenticate_user (bcrypt_checkpw toy_kdf) (env_at 1000) sample_db (text_of ''bob@acme.com'')
       (text_of ''letmein'') (text_of ''acme'') =
     Inl (AuthenticationError ''Account is disabled'') \<and>
   login_error_response (AuthenticationError ''Invalid credentials'') \<noteq>
   login_error_response (AuthenticationError ''Account is disabled'')"
proof (intro conjI)
  have f: "text_of ''letmein'' \<noteq> []" "text_of ''acme'' \<noteq> []" "text_of ''nobody@acme.com'' \<noteq> []"
    "text_of ''bob@acme.com'' \<noteq> []"
    by (simp_all add: text_of_def)
  show "authenticate_user (bcrypt_checkpw toy_kdf) (env_at 1000) sample_db (text_of ''nobody@acme.com'')
       (text_of ''letmein'') (text_of ''acme'') = Inl (AuthenticationError ''Invalid credentials'')"
    using f by (simp add: authenticate_user_def valid_emails find_tenant_sample find_user_sample env_at_def)
  show "authenticate_user (bcrypt_checkpw toy_kdf) (env_at 1000) sample_db (text_of ''bob@acme.com'')
       (text_of ''letmein'') (text_of ''acme'') = Inl (AuthenticationError ''Account is disabled'')"
    using f by (simp add: authenticate_user_def valid_emails find_tenant_sample find_user_sample env_at_def)
  show "login_error_response (AuthenticationError ''Invalid credentials'') \<noteq>
   login_error_response (AuthenticationError ''Account is disabled'')"
    by (simp add: login_error_response_def handle_auth_error_def)
qed

end
